theory Spec2Isabelle
  imports Main "HOL-Library.Word"
begin

section \<open>The resource-fetching layer of \<^verbatim>\<open>src/util/ajax.js\<close>\<close>

text \<open>
  A shallow embedding of \<^verbatim>\<open>ajax.js\<close>: the module state (the mock table), the two
  kinds of request handle (\<^verbatim>\<open>MockXMLHttpRequest\<close> and the host's
  \<^verbatim>\<open>XMLHttpRequest\<close>), \<^verbatim>\<open>makeRequest\<close>, and the four fetch operations with
  their completion handlers. What the host environment provides (the URL parser, the
  network behind a real \<^verbatim>\<open>XMLHttpRequest\<close>, \<^verbatim>\<open>JSON.parse\<close>, the document
  location, the anchor element that resolves a URL, image loading) is a parameter of the
  model, the record \<open>window\<close>.
\<close>

subsection \<open>JavaScript values and exceptions\<close>

text \<open>
  The values a response body or a mock entry can hold. Numbers are restricted to the
  integers; an \<^verbatim>\<open>ArrayBuffer\<close> is its list of bytes.
\<close>

datatype jsval =
    JUndefined
  | JNull
  | JBool bool
  | JNum int
  | JStr string
  | JArrayBuffer "8 word list"
  | JArray "jsval list"
  | JObject "(string \<times> jsval) list"

text \<open>Truthiness, as \<^verbatim>\<open>if (v)\<close> and \<^verbatim>\<open>a && b\<close> test it: every object is truthy,
  also an \<^verbatim>\<open>ArrayBuffer\<close> of length zero.\<close>

fun truthy :: "jsval \<Rightarrow> bool" where
  "truthy JUndefined = False"
| "truthy JNull = False"
| "truthy (JBool b) = b"
| "truthy (JNum n) = (n \<noteq> 0)"
| "truthy (JStr s) = (s \<noteq> [])"
| "truthy (JArrayBuffer bs) = True"
| "truthy (JArray vs) = True"
| "truthy (JObject kvs) = True"

text \<open>The exceptions the code can raise: the \<^verbatim>\<open>TypeError\<close>s of the \<^verbatim>\<open>URL\<close>
  constructor, of a property read on \<^verbatim>\<open>null\<close> or \<^verbatim>\<open>undefined\<close> and of a call of
  a missing method, the \<^verbatim>\<open>SyntaxError\<close> of \<^verbatim>\<open>JSON.parse\<close>, and the
  \<^verbatim>\<open>RangeError\<close> of a typed-array constructor.\<close>

datatype exn =
    TypeError_InvalidURL string
  | TypeError_ReadOfNullish string
  | TypeError_NotAFunction string
  | SyntaxError string
  | RangeError string

text \<open>\<^verbatim>\<open>v.byteLength\<close>: throws on \<^verbatim>\<open>null\<close> and \<^verbatim>\<open>undefined\<close>, is the length of
  an \<^verbatim>\<open>ArrayBuffer\<close>, an own property of a plain object, and \<^verbatim>\<open>undefined\<close> on
  every other value.\<close>

fun get_byteLength :: "jsval \<Rightarrow> exn + jsval" where
  "get_byteLength JUndefined = Inl (TypeError_ReadOfNullish ''byteLength'')"
| "get_byteLength JNull = Inl (TypeError_ReadOfNullish ''byteLength'')"
| "get_byteLength (JArrayBuffer bs) = Inr (JNum (int (length bs)))"
| "get_byteLength (JObject kvs) =
     Inr (case map_of kvs ''byteLength'' of None \<Rightarrow> JUndefined | Some v \<Rightarrow> v)"
| "get_byteLength (JBool b) = Inr JUndefined"
| "get_byteLength (JNum n) = Inr JUndefined"
| "get_byteLength (JStr s) = Inr JUndefined"
| "get_byteLength (JArray vs) = Inr JUndefined"

subsection \<open>Errors and callbacks\<close>

text \<open>
  The error objects handed to a callback: \<^verbatim>\<open>new Error(message)\<close>,
  \<^verbatim>\<open>new AJAXError(message, status, url)\<close>, and an exception caught by
  \<^verbatim>\<open>getJSON\<close>'s \<^verbatim>\<open>try\<close>. A message or status read from a handle that never set
  it is \<^verbatim>\<open>undefined\<close>, here \<open>None\<close>.
\<close>

datatype error =
    Error "string option"
  | AJAXError "string option" "int option" string
  | Caught exn

text \<open>The arguments of one invocation \<^verbatim>\<open>callback(err, result)\<close>:
  \<^verbatim>\<open>callback(err)\<close> leaves the result undefined, \<^verbatim>\<open>callback(null, data)\<close> has no
  error.\<close>

type_synonym 'a callback_args = "error option \<times> 'a option"

definition cb_error :: "error \<Rightarrow> 'a callback_args" where
  "cb_error e = (Some e, None)"

definition cb_success :: "'a \<Rightarrow> 'a callback_args" where
  "cb_success d = (None, Some d)"

text \<open>
  A callback is a function of its arguments that either throws or returns, leaving a
  list of observations \<open>'r\<close> behind. An operation that calls its callback once with
  arguments \<open>a\<close> has the outcome \<open>callback a\<close>; one that never calls it has the outcome
  \<open>Inr []\<close>. The callback \<open>observe\<close> returns normally and records the arguments it got.
\<close>

type_synonym ('a, 'r) callback = "'a callback_args \<Rightarrow> exn + 'r list"

definition observe :: "('a, 'a callback_args) callback" where
  "observe a = Inr [a]"

subsection \<open>Request parameters and the module state\<close>

record RequestParameters =
  url :: string
  headers :: "(string \<times> string) list option"
  credentials :: "string option"
  collectResourceTiming :: "bool option"

text \<open>The mock table \<^verbatim>\<open>mockRequest\<close>: host name to path name to body. A missing key
  reads as \<^verbatim>\<open>undefined\<close>.\<close>

type_synonym registry = "string \<rightharpoonup> (string \<rightharpoonup> jsval)"

record ajax_state =
  mockRequest :: registry

definition initial_state :: ajax_state where
  "initial_state = \<lparr>mockRequest = Map.empty\<rparr>"

definition setMockRequest :: "registry \<Rightarrow> ajax_state \<Rightarrow> ajax_state" where
  "setMockRequest mock s = s\<lparr>mockRequest := mock\<rparr>"

subsection \<open>Request handles\<close>

record MockXMLHttpRequest =
  m_url :: string
  m_response :: jsval
  m_withCredentials :: "bool option"
  m_statusText :: "string option"
  m_status :: "int option"
  m_responseType :: "string option"

definition new_MockXMLHttpRequest :: "string \<Rightarrow> jsval \<Rightarrow> MockXMLHttpRequest" where
  "new_MockXMLHttpRequest u response =
     \<lparr>m_url = u, m_response = response, m_withCredentials = None,
      m_statusText = None, m_status = None, m_responseType = None\<rparr>"

text \<open>The host's \<^verbatim>\<open>XMLHttpRequest\<close>: what \<^verbatim>\<open>open\<close>, \<^verbatim>\<open>setRequestHeader\<close> and the
  property writes configured, and what the completed exchange filled in.\<close>

record XMLHttpRequest =
  x_opened :: "(string \<times> string \<times> bool) option"
  x_requestHeaders :: "(string \<times> string) list"
  x_withCredentials :: bool
  x_responseType :: string
  x_status :: int
  x_statusText :: string
  x_response :: jsval
  x_responseHeaders :: "string \<Rightarrow> string option"

definition new_XMLHttpRequest :: XMLHttpRequest where
  "new_XMLHttpRequest =
     \<lparr>x_opened = None, x_requestHeaders = [], x_withCredentials = False,
      x_responseType = [], x_status = 0, x_statusText = [], x_response = JStr [],
      x_responseHeaders = (\<lambda>name. None)\<rparr>"

datatype xhr = Mock MockXMLHttpRequest | Real XMLHttpRequest

text \<open>The methods and properties the code uses on a handle. On the mock,
  \<^verbatim>\<open>open\<close> and \<^verbatim>\<open>setRequestHeader\<close> have empty bodies, \<^verbatim>\<open>withCredentials\<close> is a
  setter, \<^verbatim>\<open>responseType\<close> becomes a plain property, and there is no
  \<^verbatim>\<open>getResponseHeader\<close>.\<close>

fun xhr_open :: "string \<Rightarrow> string \<Rightarrow> bool \<Rightarrow> xhr \<Rightarrow> xhr" where
  "xhr_open method u async (Mock m) = Mock m"
| "xhr_open method u async (Real x) = Real (x\<lparr>x_opened := Some (method, u, async)\<rparr>)"

fun xhr_setRequestHeader :: "string \<Rightarrow> string \<Rightarrow> xhr \<Rightarrow> xhr" where
  "xhr_setRequestHeader k v (Mock m) = Mock m"
| "xhr_setRequestHeader k v (Real x) =
     Real (x\<lparr>x_requestHeaders := x_requestHeaders x @ [(k, v)]\<rparr>)"

fun xhr_set_withCredentials :: "bool \<Rightarrow> xhr \<Rightarrow> xhr" where
  "xhr_set_withCredentials b (Mock m) = Mock (m\<lparr>m_withCredentials := Some b\<rparr>)"
| "xhr_set_withCredentials b (Real x) = Real (x\<lparr>x_withCredentials := b\<rparr>)"

fun xhr_set_responseType :: "string \<Rightarrow> xhr \<Rightarrow> xhr" where
  "xhr_set_responseType t (Mock m) = Mock (m\<lparr>m_responseType := Some t\<rparr>)"
| "xhr_set_responseType t (Real x) = Real (x\<lparr>x_responseType := t\<rparr>)"

fun xhr_status :: "xhr \<Rightarrow> int option" where
  "xhr_status (Mock m) = m_status m"
| "xhr_status (Real x) = Some (x_status x)"

fun xhr_statusText :: "xhr \<Rightarrow> string option" where
  "xhr_statusText (Mock m) = m_statusText m"
| "xhr_statusText (Real x) = Some (x_statusText x)"

fun xhr_response :: "xhr \<Rightarrow> jsval" where
  "xhr_response (Mock m) = m_response m"
| "xhr_response (Real x) = x_response x"

fun xhr_getResponseHeader :: "xhr \<Rightarrow> string \<Rightarrow> exn + string option" where
  "xhr_getResponseHeader (Mock m) name = Inl (TypeError_NotAFunction ''getResponseHeader'')"
| "xhr_getResponseHeader (Real x) name = Inr (x_responseHeaders x name)"

text \<open>\<^verbatim>\<open>xhr.status >= 200 && xhr.status < 300\<close>; both comparisons are false on
  \<^verbatim>\<open>undefined\<close>.\<close>

definition status_2xx :: "xhr \<Rightarrow> bool" where
  "status_2xx h = (case xhr_status h of None \<Rightarrow> False | Some n \<Rightarrow> 200 \<le> n \<and> n < 300)"

subsection \<open>The host environment\<close>

record URL =
  protocol :: string
  hostname :: string
  port :: string
  pathname :: string
  search :: string
  hash :: string

record TransportResult =
  tr_status :: int
  tr_statusText :: string
  tr_body :: jsval
  tr_headers :: "string \<Rightarrow> string option"

text \<open>What becomes of a request sent on the host's \<^verbatim>\<open>XMLHttpRequest\<close>: the exchange
  completes and \<^verbatim>\<open>onload\<close> fires, it fails and \<^verbatim>\<open>onerror\<close> fires with the given
  status text, or neither event ever fires.\<close>

datatype exchange = Load TransportResult | NetworkFailure string | Pending

text \<open>\<^verbatim>\<open>new window.Blob([bytes], {type: t})\<close>, and what \<^verbatim>\<open>img.src\<close> is set to: the
  object URL of a blob or a literal URL.\<close>

datatype blob = Blob "8 word list" string

datatype img_src = ObjectURL blob | Literal string

record HTMLImageElement =
  img_src :: img_src
  img_cacheControl :: "string option"
  img_expires :: "string option"

record window =
  window_URL :: "string \<Rightarrow> URL option"
  window_transport :: "XMLHttpRequest \<Rightarrow> exchange"
  window_JSON_parse :: "jsval \<Rightarrow> exn + jsval"
  window_location_protocol :: string
  window_location_host :: string
  window_anchor :: "string \<Rightarrow> string \<times> string"
  window_Uint8Array :: "jsval \<Rightarrow> exn + 8 word list"
  window_Image_loads :: "HTMLImageElement \<Rightarrow> bool"

text \<open>
  \<open>window_URL\<close> is \<^verbatim>\<open>new window.URL(s)\<close>, \<open>None\<close> when the constructor throws;
  \<open>window_transport\<close> is the network behind \<^verbatim>\<open>send\<close>; \<open>window_anchor\<close> gives
  \<^verbatim>\<open>(a.protocol, a.host)\<close> of an anchor element after \<^verbatim>\<open>a.href = s\<close>;
  \<open>window_Uint8Array\<close> is \<^verbatim>\<open>new Uint8Array(v)\<close> on a value that is not an
  \<^verbatim>\<open>ArrayBuffer\<close>; \<open>window_Image_loads\<close> says whether the host fires the load
  event of an image.
\<close>

subsection \<open>\<^verbatim>\<open>makeRequest\<close>\<close>

text \<open>\<^verbatim>\<open>hostMock && hostMock[pathName]\<close>: \<^verbatim>\<open>undefined\<close> when the host has no table,
  else the entry, \<^verbatim>\<open>undefined\<close> when the path has none.\<close>

definition mock_lookup :: "registry \<Rightarrow> string \<Rightarrow> string \<Rightarrow> jsval" where
  "mock_lookup reg hostName pathName =
     (case reg hostName of
        None \<Rightarrow> JUndefined
      | Some hostMock \<Rightarrow> (case hostMock pathName of None \<Rightarrow> JUndefined | Some v \<Rightarrow> v))"

text \<open>\<^verbatim>\<open>for (const k in requestParameters.headers)\<close>: no iteration when the field is
  absent, else one \<^verbatim>\<open>setRequestHeader\<close> per key, in enumeration order.\<close>

fun set_headers :: "(string \<times> string) list \<Rightarrow> xhr \<Rightarrow> xhr" where
  "set_headers [] h = h"
| "set_headers ((k, v) # kvs) h = set_headers kvs (xhr_setRequestHeader k v h)"

definition makeRequest :: "window \<Rightarrow> ajax_state \<Rightarrow> RequestParameters \<Rightarrow> exn + xhr" where
  "makeRequest w s requestParameters =
     (case window_URL w (url requestParameters) of
        None \<Rightarrow> Inl (TypeError_InvalidURL (url requestParameters))
      | Some u \<Rightarrow>
          let entry = mock_lookup (mockRequest s) (hostname u) (pathname u);
              h0 = (if truthy entry
                    then Mock (new_MockXMLHttpRequest (url requestParameters) entry)
                    else Real new_XMLHttpRequest);
              h1 = xhr_open ''GET'' (url requestParameters) True h0;
              h2 = set_headers (case headers requestParameters of None \<Rightarrow> [] | Some kvs \<Rightarrow> kvs) h1
          in Inr (xhr_set_withCredentials (credentials requestParameters = Some ''include'') h2))"

subsection \<open>\<^verbatim>\<open>send\<close>\<close>

text \<open>
  \<^verbatim>\<open>MockXMLHttpRequest.send\<close>: the status it sets from \<^verbatim>\<open>_response\<close>, and the call
  of the stored \<^verbatim>\<open>onload\<close> callback on the handle, inside \<^verbatim>\<open>send\<close>. The callback
  installed through the \<^verbatim>\<open>onload\<close> setter is the argument \<open>onload\<close>; an
  assignment to \<^verbatim>\<open>onerror\<close> only shadows the empty method, which nothing calls.
\<close>

definition MockXMLHttpRequest_send_status :: "MockXMLHttpRequest \<Rightarrow> MockXMLHttpRequest" where
  "MockXMLHttpRequest_send_status m =
     (if truthy (m_response m)
      then m\<lparr>m_status := Some 200\<rparr>
      else m\<lparr>m_status := Some 404,
             m_statusText := Some (m_url m @ '' mock data is error!'')\<rparr>)"

definition MockXMLHttpRequest_send ::
  "MockXMLHttpRequest \<Rightarrow> (MockXMLHttpRequest \<Rightarrow> exn + 'r list)
     \<Rightarrow> exn + (MockXMLHttpRequest \<times> 'r list)" where
  "MockXMLHttpRequest_send m onload =
     (let m' = MockXMLHttpRequest_send_status m
      in case onload m' of
           Inl e \<Rightarrow> Inl e
         | Inr calls \<Rightarrow> Inr (m', calls))"

definition complete :: "XMLHttpRequest \<Rightarrow> TransportResult \<Rightarrow> XMLHttpRequest" where
  "complete x tr =
     x\<lparr>x_status := tr_status tr, x_statusText := tr_statusText tr,
       x_response := tr_body tr, x_responseHeaders := tr_headers tr\<rparr>"

text \<open>
  \<^verbatim>\<open>xhr.send()\<close> with the handlers the operation installed. The mock sets its status
  and calls \<^verbatim>\<open>onload\<close> before \<^verbatim>\<open>send\<close> returns, so that an exception of the
  handler leaves the operation itself (\<open>Inl\<close>). On the host's request the operation
  returns the handle, and the handler runs when the exchange ends: the second component
  is what that run does, \<open>Inl\<close> when the handler throws.
\<close>

definition xhr_send ::
  "window \<Rightarrow> xhr \<Rightarrow> (xhr \<Rightarrow> exn + 'r list) \<Rightarrow> (xhr \<Rightarrow> exn + 'r list)
     \<Rightarrow> exn + (xhr \<times> (exn + 'r list))" where
  "xhr_send w h onload onerror =
     (case h of
        Mock m \<Rightarrow>
          (case MockXMLHttpRequest_send m (\<lambda>m'. onload (Mock m')) of
             Inl e \<Rightarrow> Inl e
           | Inr (m', calls) \<Rightarrow> Inr (Mock m', Inr calls))
      | Real x \<Rightarrow>
          (case window_transport w x of
             Load tr \<Rightarrow> Inr (Real (complete x tr), onload (Real (complete x tr)))
           | NetworkFailure st \<Rightarrow>
               Inr (Real (x\<lparr>x_statusText := st\<rparr>), onerror (Real (x\<lparr>x_statusText := st\<rparr>)))
           | Pending \<Rightarrow> Inr (Real x, Inr [])))"

text \<open>\<^verbatim>\<open>xhr.onerror = function() { callback(new Error(xhr.statusText)); }\<close>\<close>

definition onerror_handler :: "('a, 'r) callback \<Rightarrow> xhr \<Rightarrow> exn + 'r list" where
  "onerror_handler callback h = callback (cb_error (Error (xhr_statusText h)))"

subsection \<open>\<^verbatim>\<open>getJSON\<close>\<close>

definition getJSON_onload ::
  "window \<Rightarrow> RequestParameters \<Rightarrow> (jsval, 'r) callback \<Rightarrow> xhr \<Rightarrow> exn + 'r list" where
  "getJSON_onload w requestParameters callback h =
     (if status_2xx h \<and> truthy (xhr_response h)
      then (case window_JSON_parse w (xhr_response h) of
              Inl err \<Rightarrow> callback (cb_error (Caught err))
            | Inr d \<Rightarrow> callback (cb_success d))
      else callback (cb_error
             (AJAXError (xhr_statusText h) (xhr_status h) (url requestParameters))))"

definition getJSON ::
  "window \<Rightarrow> ajax_state \<Rightarrow> RequestParameters \<Rightarrow> (jsval, 'r) callback
     \<Rightarrow> exn + (xhr \<times> (exn + 'r list))" where
  "getJSON w s requestParameters callback =
     (case makeRequest w s requestParameters of
        Inl e \<Rightarrow> Inl e
      | Inr h \<Rightarrow>
          xhr_send w (xhr_setRequestHeader ''Accept'' ''application/json'' h)
            (getJSON_onload w requestParameters callback) (onerror_handler callback))"

subsection \<open>\<^verbatim>\<open>getArrayBuffer\<close>\<close>

record BufferResult =
  data :: jsval
  cacheControl :: "string option"
  expires :: "string option"

definition getArrayBuffer_onload ::
  "RequestParameters \<Rightarrow> (BufferResult, 'r) callback \<Rightarrow> xhr \<Rightarrow> exn + 'r list" where
  "getArrayBuffer_onload requestParameters callback h =
     (let response = xhr_response h in
      case get_byteLength response of
        Inl e \<Rightarrow> Inl e
      | Inr n \<Rightarrow>
          if n = JNum 0 \<and> xhr_status h = Some 200
          then callback (cb_error (Error (Some ''http status 200 returned without content.'')))
          else if status_2xx h \<and> truthy (xhr_response h)
          then (case xhr_getResponseHeader h ''Cache-Control'' of
                  Inl e \<Rightarrow> Inl e
                | Inr cc \<Rightarrow>
                    (case xhr_getResponseHeader h ''Expires'' of
                       Inl e \<Rightarrow> Inl e
                     | Inr ex \<Rightarrow>
                         callback (cb_success
                           \<lparr>data = response, cacheControl = cc, expires = ex\<rparr>)))
          else callback (cb_error
                 (AJAXError (xhr_statusText h) (xhr_status h) (url requestParameters))))"

definition getArrayBuffer ::
  "window \<Rightarrow> ajax_state \<Rightarrow> RequestParameters \<Rightarrow> (BufferResult, 'r) callback
     \<Rightarrow> exn + (xhr \<times> (exn + 'r list))" where
  "getArrayBuffer w s requestParameters callback =
     (case makeRequest w s requestParameters of
        Inl e \<Rightarrow> Inl e
      | Inr h \<Rightarrow>
          xhr_send w (xhr_set_responseType ''arraybuffer'' h)
            (getArrayBuffer_onload requestParameters callback) (onerror_handler callback))"

subsection \<open>\<^verbatim>\<open>getImage\<close>\<close>

definition transparentPngUrl :: string where
  "transparentPngUrl =
     ''data:image/png;base64,iVBORw0KGgoAAAANSUhEUgAAAAEAAAABCAYAAAAfFcSJAAAAC0lEQVQYV2NgAAIAAAUAAarVyFEAAAAASUVORK5CYII=''"

text \<open>\<^verbatim>\<open>new Uint8Array(v)\<close>: a view of the bytes of an \<^verbatim>\<open>ArrayBuffer\<close>; on any
  other value the host decides.\<close>

definition new_Uint8Array :: "window \<Rightarrow> jsval \<Rightarrow> exn + 8 word list" where
  "new_Uint8Array w v = (case v of JArrayBuffer bs \<Rightarrow> Inr bs | _ \<Rightarrow> window_Uint8Array w v)"

text \<open>
  The callback \<^verbatim>\<open>getImage\<close> hands to \<^verbatim>\<open>getArrayBuffer\<close>. The image's
  \<^verbatim>\<open>onload\<close> handler calls \<^verbatim>\<open>callback(null, img)\<close> when the host fires the load
  event; there is no handler for a failed load. The release of the object URL after the
  callback is not tracked.
\<close>

definition getImage_callback ::
  "window \<Rightarrow> (HTMLImageElement, 'r) callback \<Rightarrow> (BufferResult, 'r) callback" where
  "getImage_callback w callback args =
     (case fst args of
        Some err \<Rightarrow> callback (cb_error err)
      | None \<Rightarrow>
          (case snd args of
             None \<Rightarrow> Inr []
           | Some imgData \<Rightarrow>
               (case new_Uint8Array w (data imgData) of
                  Inl e \<Rightarrow> Inl e
                | Inr bytes \<Rightarrow>
                    (case get_byteLength (data imgData) of
                       Inl e \<Rightarrow> Inl e
                     | Inr n \<Rightarrow>
                         let img = \<lparr>img_src = (if truthy n
                                               then ObjectURL (Blob bytes ''image/png'')
                                               else Literal transparentPngUrl),
                                    img_cacheControl = cacheControl imgData,
                                    img_expires = expires imgData\<rparr>
                         in if window_Image_loads w img
                            then callback (cb_success img)
                            else Inr []))))"

definition getImage ::
  "window \<Rightarrow> ajax_state \<Rightarrow> RequestParameters \<Rightarrow> (HTMLImageElement, 'r) callback
     \<Rightarrow> exn + (xhr \<times> (exn + 'r list))" where
  "getImage w s requestParameters callback =
     getArrayBuffer w s requestParameters (getImage_callback w callback)"

subsection \<open>\<^verbatim>\<open>sameOrigin\<close> and \<^verbatim>\<open>getVideo\<close>\<close>

definition sameOrigin :: "window \<Rightarrow> string \<Rightarrow> bool" where
  "sameOrigin w u =
     (fst (window_anchor w u) = window_location_protocol w \<and>
      snd (window_anchor w u) = window_location_host w)"

record HTMLSourceElement =
  source_src :: string

record HTMLVideoElement =
  video_crossOrigin :: "string option"
  video_children :: "HTMLSourceElement list"

definition new_video :: HTMLVideoElement where
  "new_video = \<lparr>video_crossOrigin = None, video_children = []\<rparr>"

text \<open>The body of the loop \<^verbatim>\<open>for (let i = 0; i < urls.length; i++)\<close>, and the loop
  over the URLs that are left.\<close>

definition getVideo_step :: "window \<Rightarrow> string \<Rightarrow> HTMLVideoElement \<Rightarrow> HTMLVideoElement" where
  "getVideo_step w u video =
     (let video1 = (if \<not> sameOrigin w u
                    then video\<lparr>video_crossOrigin := Some ''Anonymous''\<rparr>
                    else video)
      in video1\<lparr>video_children := video_children video1 @ [\<lparr>source_src = u\<rparr>]\<rparr>)"

fun getVideo_loop :: "window \<Rightarrow> string list \<Rightarrow> HTMLVideoElement \<Rightarrow> HTMLVideoElement" where
  "getVideo_loop w [] video = video"
| "getVideo_loop w (u # urls) video = getVideo_loop w urls (getVideo_step w u video)"

definition getVideo :: "window \<Rightarrow> string list \<Rightarrow> HTMLVideoElement" where
  "getVideo w urls = getVideo_loop w urls new_video"

text \<open>\<^verbatim>\<open>video.onloadstart = function() { callback(null, video); }\<close>\<close>

definition getVideo_onloadstart ::
  "(HTMLVideoElement, 'r) callback \<Rightarrow> HTMLVideoElement \<Rightarrow> exn + 'r list" where
  "getVideo_onloadstart callback video = callback (cb_success video)"

subsection \<open>Observations and a sample host\<close>

text \<open>The mock entry a handle was built from, if it is a mock.\<close>

fun resolved_entry :: "xhr \<Rightarrow> jsval option" where
  "resolved_entry (Mock m) = Some (m_response m)"
| "resolved_entry (Real x) = None"

text \<open>
  A small host on which the model runs: a document at \<^verbatim>\<open>http://example.com\<close>, a URL
  parser and a JSON parser that know a few texts, a typed-array constructor that yields
  no bytes, images that load, and a network on which nothing completes (each example
  below that needs an answer from the network supplies its own).
\<close>

definition example_URL :: "string \<Rightarrow> URL option" where
  "example_URL s =
     (if s = ''http://example.com/a''
      then Some \<lparr>protocol = ''http:'', hostname = ''example.com'', port = [],
                  pathname = ''/a'', search = [], hash = []\<rparr>
      else if s = ''https://example.com:8443/a?x=1#top''
      then Some \<lparr>protocol = ''https:'', hostname = ''example.com'', port = ''8443'',
                  pathname = ''/a'', search = ''?x=1'', hash = ''#top''\<rparr>
      else if s = ''http://example.com/b''
      then Some \<lparr>protocol = ''http:'', hostname = ''example.com'', port = [],
                  pathname = ''/b'', search = [], hash = []\<rparr>
      else if s = ''http://other-origin/a.mp4''
      then Some \<lparr>protocol = ''http:'', hostname = ''other-origin'', port = [],
                  pathname = ''/a.mp4'', search = [], hash = []\<rparr>
      else None)"

definition example_anchor :: "string \<Rightarrow> string \<times> string" where
  "example_anchor s =
     (case example_URL s of
        Some u \<Rightarrow> (protocol u, if port u = [] then hostname u else hostname u @ '':'' @ port u)
      | None \<Rightarrow> (''http:'', ''example.com''))"

definition example_JSON_parse :: "jsval \<Rightarrow> exn + jsval" where
  "example_JSON_parse v =
     (case v of
        JStr s \<Rightarrow>
          (if s = ''1'' then Inr (JNum 1)
           else if s = ''[1,2]'' then Inr (JArray [JNum 1, JNum 2])
           else if s = ''null'' then Inr JNull
           else Inl (SyntaxError s))
      | _ \<Rightarrow> Inl (SyntaxError ''[object]''))"

definition example_window :: window where
  "example_window =
     \<lparr>window_URL = example_URL,
      window_transport = (\<lambda>x. Pending),
      window_JSON_parse = example_JSON_parse,
      window_location_protocol = ''http:'',
      window_location_host = ''example.com'',
      window_anchor = example_anchor,
      window_Uint8Array = (\<lambda>v. Inr []),
      window_Image_loads = (\<lambda>img. True)\<rparr>"

definition answer :: "int \<Rightarrow> string \<Rightarrow> jsval \<Rightarrow> exchange" where
  "answer st text body =
     Load \<lparr>tr_status = st, tr_statusText = text, tr_body = body,
           tr_headers = (\<lambda>name. if name = ''Cache-Control'' then Some ''max-age=60'' else None)\<rparr>"

definition example_request :: "string \<Rightarrow> RequestParameters" where
  "example_request u =
     \<lparr>url = u, headers = None, credentials = None, collectResourceTiming = None\<rparr>"

section \<open>Properties\<close>

subsection \<open>Auxiliary facts\<close>

lemmas example_defs = example_window_def example_URL_def example_JSON_parse_def
  example_anchor_def example_request_def answer_def initial_state_def setMockRequest_def

lemma xhr_send_Mock:
  "xhr_send w (Mock m) onload onerror =
     (case onload (Mock (MockXMLHttpRequest_send_status m)) of
        Inl e \<Rightarrow> Inl e
      | Inr calls \<Rightarrow> Inr (Mock (MockXMLHttpRequest_send_status m), Inr calls))"
  by (simp add: xhr_send_def MockXMLHttpRequest_send_def Let_def split: sum.splits)

lemma xhr_send_Real:
  "xhr_send w (Real x) onload onerror =
     (case window_transport w x of
        Load tr \<Rightarrow> Inr (Real (complete x tr), onload (Real (complete x tr)))
      | NetworkFailure st \<Rightarrow>
          Inr (Real (x\<lparr>x_statusText := st\<rparr>), onerror (Real (x\<lparr>x_statusText := st\<rparr>)))
      | Pending \<Rightarrow> Inr (Real x, Inr []))"
  by (simp add: xhr_send_def)

lemmas op_defs = makeRequest_def mock_lookup_def new_MockXMLHttpRequest_def
  new_XMLHttpRequest_def xhr_send_Mock xhr_send_Real MockXMLHttpRequest_send_status_def
  complete_def status_2xx_def observe_def cb_error_def cb_success_def onerror_handler_def
  Let_def

lemma set_headers_Mock: "set_headers kvs (Mock m) = Mock m"
  by (induction kvs) auto

lemma set_headers_Real:
  "set_headers kvs (Real x) = Real (x\<lparr>x_requestHeaders := x_requestHeaders x @ kvs\<rparr>)"
  by (induction kvs arbitrary: x) auto

lemma makeRequest_parsed:
  assumes "window_URL w (url p) = Some u"
  shows "makeRequest w s p =
     Inr (if truthy (mock_lookup (mockRequest s) (hostname u) (pathname u))
          then Mock ((new_MockXMLHttpRequest (url p)
                       (mock_lookup (mockRequest s) (hostname u) (pathname u)))
                     \<lparr>m_withCredentials := Some (credentials p = Some ''include'')\<rparr>)
          else Real (new_XMLHttpRequest
                     \<lparr>x_opened := Some (''GET'', url p, True),
                      x_requestHeaders := (case headers p of None \<Rightarrow> [] | Some kvs \<Rightarrow> kvs),
                      x_withCredentials := (credentials p = Some ''include'')\<rparr>))"
  using assms
  by (simp add: makeRequest_def Let_def set_headers_Mock set_headers_Real new_XMLHttpRequest_def)

lemma makeRequest_unparsed:
  "window_URL w (url p) = None \<Longrightarrow> makeRequest w s p = Inl (TypeError_InvalidURL (url p))"
  by (simp add: makeRequest_def)

lemma complete_fields:
  "x_status (complete x tr) = tr_status tr"
  "x_statusText (complete x tr) = tr_statusText tr"
  "x_response (complete x tr) = tr_body tr"
  "x_responseHeaders (complete x tr) = tr_headers tr"
  "x_opened (complete x tr) = x_opened x"
  "x_requestHeaders (complete x tr) = x_requestHeaders x"
  "x_withCredentials (complete x tr) = x_withCredentials x"
  by (simp_all add: complete_def)

lemma status_2xx_complete:
  "status_2xx (Real (complete x tr)) = (200 \<le> tr_status tr \<and> tr_status tr < 300)"
  by (simp add: status_2xx_def complete_def)

lemma getJSON_onload_2xx:
  assumes "status_2xx h" and "truthy (xhr_response h)"
  shows "getJSON_onload w p callback h =
     (case window_JSON_parse w (xhr_response h) of
        Inl err \<Rightarrow> callback (cb_error (Caught err))
      | Inr v \<Rightarrow> callback (cb_success v))"
  using assms by (simp add: getJSON_onload_def)

lemma makeRequest_Mock_truthy:
  assumes "makeRequest w s p = Inr (Mock m)"
  shows "truthy (m_response m)"
proof (cases "window_URL w (url p)")
  case None
  with assms show ?thesis by (simp add: makeRequest_unparsed)
next
  case (Some u)
  with assms show ?thesis
    by (auto simp: makeRequest_parsed new_MockXMLHttpRequest_def split: if_splits)
qed



lemma example_makeRequest_real:
  "makeRequest (example_window\<lparr>window_transport := t\<rparr>) initial_state
      (example_request ''http://example.com/a'') =
     Inr (Real (new_XMLHttpRequest\<lparr>x_opened := Some (''GET'', ''http://example.com/a'', True)\<rparr>))"
  by (simp add: op_defs example_defs)

lemma example_makeRequest_mock:
  "makeRequest example_window
      (setMockRequest [''example.com'' \<mapsto> [''/a'' \<mapsto> v]] initial_state)
      (example_request ''http://example.com/a'') =
     (if truthy v
      then Inr (Mock \<lparr>m_url = ''http://example.com/a'', m_response = v,
                      m_withCredentials = Some False, m_statusText = None,
                      m_status = None, m_responseType = None\<rparr>)
      else Inr (Real (new_XMLHttpRequest\<lparr>x_opened := Some (''GET'', ''http://example.com/a'', True)\<rparr>)))"
  by (simp add: op_defs example_defs)









lemma getVideo_step_children:
  "map source_src (video_children (getVideo_step w u v)) = map source_src (video_children v) @ [u]"
  by (simp add: getVideo_step_def Let_def)

lemma getVideo_step_crossOrigin:
  "video_crossOrigin (getVideo_step w u v) =
     (if sameOrigin w u then video_crossOrigin v else Some ''Anonymous'')"
  by (simp add: getVideo_step_def Let_def)

lemma getVideo_loop_children:
  "map source_src (video_children (getVideo_loop w urls v)) =
     map source_src (video_children v) @ urls"
  by (induction urls arbitrary: v) (simp_all add: getVideo_step_children)

lemma getVideo_loop_crossOrigin:
  "video_crossOrigin (getVideo_loop w urls v) =
     (if list_ex (\<lambda>u. \<not> sameOrigin w u) urls then Some ''Anonymous'' else video_crossOrigin v)"
proof (induction urls arbitrary: v)
  case Nil
  show ?case by simp
next
  case (Cons u urls)
  show ?case
    by (simp add: Cons.IH getVideo_step_crossOrigin)
qed

subsection \<open>C1: a mock entry without a body\<close>

text \<open>
  Claim C1: for every mock entry whose body is absent or empty, a matching
  \<^verbatim>\<open>getJSON\<close> or \<^verbatim>\<open>getArrayBuffer\<close> call delivers one \<^verbatim>\<open>AJAXError\<close> with status
  404 and does not contact the network. The code does otherwise:
  \<^verbatim>\<open>makeRequest\<close> builds the mock handle only for a truthy entry, so the request for
  an entry with the empty string or \<^verbatim>\<open>null\<close> as body goes to the host's
  \<^verbatim>\<open>XMLHttpRequest\<close>, and the callback gets what the network answers, here the
  parsed value \<open>1\<close> and three bytes.
\<close>

theorem empty_mock_entry_contacts_network:
  "(case getJSON (example_window\<lparr>window_transport := (\<lambda>x. answer 200 ''OK'' (JStr ''1''))\<rparr>)
          (setMockRequest [''example.com'' \<mapsto> [''/a'' \<mapsto> JStr []]] initial_state)
          (example_request ''http://example.com/a'') observe of
      Inl e \<Rightarrow> False
    | Inr (h, c) \<Rightarrow> resolved_entry h = None \<and> c = Inr [cb_success (JNum 1)]) \<and>
   (case getArrayBuffer
          (example_window\<lparr>window_transport := (\<lambda>x. answer 200 ''OK'' (JArrayBuffer [1, 2, 3]))\<rparr>)
          (setMockRequest [''example.com'' \<mapsto> [''/a'' \<mapsto> JNull]] initial_state)
          (example_request ''http://example.com/a'') observe of
      Inl e \<Rightarrow> False
    | Inr (h, c) \<Rightarrow>
        resolved_entry h = None \<and>
        c = Inr [cb_success \<lparr>data = JArrayBuffer [1, 2, 3],
                              cacheControl = Some ''max-age=60'', expires = None\<rparr>])"
  by (simp add: getJSON_def getJSON_onload_def getArrayBuffer_def getArrayBuffer_onload_def
      op_defs example_defs)

subsection \<open>C2: a completed exchange without a body\<close>

text \<open>
  Claim C2: for every completed exchange, also one with a null body,
  \<^verbatim>\<open>getArrayBuffer\<close> calls its callback exactly once and no exception escapes the
  completion handler. The code does otherwise: on a response that is \<^verbatim>\<open>null\<close> the
  handler reads \<^verbatim>\<open>response.byteLength\<close> first, which throws a \<^verbatim>\<open>TypeError\<close>, and
  the callback is never called. Against a mock entry the exception of the handler even
  leaves \<^verbatim>\<open>getArrayBuffer\<close> itself.
\<close>

theorem getArrayBuffer_null_body_throws:
  "(case getArrayBuffer (example_window\<lparr>window_transport := (\<lambda>x. answer 404 ''Not Found'' JNull)\<rparr>)
          initial_state (example_request ''http://example.com/a'') observe of
      Inl e \<Rightarrow> False
    | Inr (h, c) \<Rightarrow> c = Inl (TypeError_ReadOfNullish ''byteLength'')) \<and>
   getArrayBuffer example_window
      (setMockRequest [''example.com'' \<mapsto> [''/b'' \<mapsto> JStr ''abc'']] initial_state)
      (example_request ''http://example.com/b'') observe =
     Inl (TypeError_NotAFunction ''getResponseHeader'')"
  by (simp add: getArrayBuffer_def getArrayBuffer_onload_def op_defs example_defs)

subsection \<open>C3: a mock entry with a body\<close>

text \<open>
  Claim C3: for every mock entry with a non-empty body, a matching \<^verbatim>\<open>getJSON\<close> or
  \<^verbatim>\<open>getArrayBuffer\<close> call delivers a success whose value is the decoded body. For
  \<^verbatim>\<open>getArrayBuffer\<close> the code does otherwise: the mock handle reports status 200,
  the handler then calls \<^verbatim>\<open>xhr.getResponseHeader\<close>, which
  \<^verbatim>\<open>MockXMLHttpRequest\<close> does not define, and the \<^verbatim>\<open>TypeError\<close> leaves
  \<^verbatim>\<open>getArrayBuffer\<close> itself before the callback is called.
\<close>

theorem getArrayBuffer_mock_body_throws:
  "getArrayBuffer example_window
      (setMockRequest [''example.com'' \<mapsto> [''/a'' \<mapsto> JArrayBuffer [1, 2, 3]]] initial_state)
      (example_request ''http://example.com/a'') observe =
     Inl (TypeError_NotAFunction ''getResponseHeader'')"
  by (simp add: getArrayBuffer_def getArrayBuffer_onload_def op_defs example_defs)

subsection \<open>C4: the empty body behind status 200, and the success result\<close>

text \<open>
  Claim C4: a \<^verbatim>\<open>getArrayBuffer\<close> exchange that completes with status 200 and a body
  of byte length zero gives the callback exactly one error and no success; a 2xx exchange
  with a non-empty body gives it a success that carries the body and the
  \<^verbatim>\<open>Cache-Control\<close> and \<^verbatim>\<open>Expires\<close> response headers. For an exchange that the
  mock serves the code breaks the second half: the handle reports status 200 and a
  body of two bytes, the handler calls \<^verbatim>\<open>xhr.getResponseHeader\<close>, which
  \<^verbatim>\<open>MockXMLHttpRequest\<close> does not define, and no success is delivered.
\<close>

theorem getArrayBuffer_mock_2xx_body_no_success:
  "m_status (MockXMLHttpRequest_send_status
      (new_MockXMLHttpRequest ''http://example.com/b'' (JArrayBuffer [7, 8]))) = Some 200 \<and>
   get_byteLength (JArrayBuffer [7, 8]) = Inr (JNum 2) \<and>
   getArrayBuffer example_window
      (setMockRequest [''example.com'' \<mapsto> [''/b'' \<mapsto> JArrayBuffer [7, 8]]] initial_state)
      (example_request ''http://example.com/b'') observe =
     Inl (TypeError_NotAFunction ''getResponseHeader'')"
  by (simp add: getArrayBuffer_def getArrayBuffer_onload_def op_defs example_defs)

subsection \<open>C5: decoding in getJSON\<close>

text \<open>
  Claim C5: a \<^verbatim>\<open>getJSON\<close> exchange that completes with a 2xx status and a non-empty
  body gives the callback exactly one error, the parse failure, when the body is not
  valid JSON, and the parsed value with no error when it is; the handler itself throws
  nothing. Stated for an exchange on the host's \<^verbatim>\<open>XMLHttpRequest\<close> and for one
  that the mock handle synthesises, where the callback runs before \<^verbatim>\<open>getJSON\<close>
  returns.
\<close>

theorem getJSON_decodes_or_reports_parse_failure:
  assumes "makeRequest w s p = Inr h0"
  shows "(\<forall>x tr. xhr_setRequestHeader ''Accept'' ''application/json'' h0 = Real x \<and>
              window_transport w x = Load tr \<and>
              200 \<le> tr_status tr \<and> tr_status tr < 300 \<and> truthy (tr_body tr) \<longrightarrow>
            getJSON w s p callback =
              Inr (Real (complete x tr),
                   case window_JSON_parse w (tr_body tr) of
                     Inl err \<Rightarrow> callback (cb_error (Caught err))
                   | Inr v \<Rightarrow> callback (cb_success v))) \<and>
         (\<forall>m. h0 = Mock m \<longrightarrow>
            getJSON w s p callback =
              (case (case window_JSON_parse w (m_response m) of
                       Inl err \<Rightarrow> callback (cb_error (Caught err))
                     | Inr v \<Rightarrow> callback (cb_success v)) of
                 Inl e \<Rightarrow> Inl e
               | Inr calls \<Rightarrow> Inr (Mock (m\<lparr>m_status := Some 200\<rparr>), Inr calls)))"
proof (intro conjI allI impI)
  fix x tr
  assume a: "xhr_setRequestHeader ''Accept'' ''application/json'' h0 = Real x \<and>
              window_transport w x = Load tr \<and>
              200 \<le> tr_status tr \<and> tr_status tr < 300 \<and> truthy (tr_body tr)"
  have "getJSON_onload w p callback (Real (complete x tr)) =
     (case window_JSON_parse w (tr_body tr) of
        Inl err \<Rightarrow> callback (cb_error (Caught err))
      | Inr v \<Rightarrow> callback (cb_success v))"
    using a getJSON_onload_2xx [of "Real (complete x tr)" w p callback]
    by (simp add: status_2xx_complete complete_fields)
  with a assms show "getJSON w s p callback =
              Inr (Real (complete x tr),
                   case window_JSON_parse w (tr_body tr) of
                     Inl err \<Rightarrow> callback (cb_error (Caught err))
                   | Inr v \<Rightarrow> callback (cb_success v))"
    by (simp add: getJSON_def xhr_send_Real)
next
  fix m
  assume h: "h0 = Mock m"
  with assms have t: "truthy (m_response m)"
    using makeRequest_Mock_truthy by blast
  have "getJSON_onload w p callback (Mock (m\<lparr>m_status := Some 200\<rparr>)) =
     (case window_JSON_parse w (m_response m) of
        Inl err \<Rightarrow> callback (cb_error (Caught err))
      | Inr v \<Rightarrow> callback (cb_success v))"
    using t getJSON_onload_2xx [of "Mock (m\<lparr>m_status := Some 200\<rparr>)" w p callback]
    by (simp add: status_2xx_def)
  with h t assms show "getJSON w s p callback =
              (case (case window_JSON_parse w (m_response m) of
                       Inl err \<Rightarrow> callback (cb_error (Caught err))
                     | Inr v \<Rightarrow> callback (cb_success v)) of
                 Inl e \<Rightarrow> Inl e
               | Inr calls \<Rightarrow> Inr (Mock (m\<lparr>m_status := Some 200\<rparr>), Inr calls))"
    by (simp add: getJSON_def xhr_send_Mock MockXMLHttpRequest_send_status_def
        split: sum.splits)
qed

theorem getJSON_decode_witness:
  "(case getJSON (example_window\<lparr>window_transport := (\<lambda>x. answer 200 ''OK'' (JStr ''{bad''))\<rparr>)
          initial_state (example_request ''http://example.com/a'') observe of
      Inl e \<Rightarrow> False
    | Inr (h, c) \<Rightarrow> c = Inr [cb_error (Caught (SyntaxError ''{bad''))]) \<and>
   (case getJSON (example_window\<lparr>window_transport := (\<lambda>x. answer 200 ''OK'' (JStr ''[1,2]''))\<rparr>)
          initial_state (example_request ''http://example.com/a'') observe of
      Inl e \<Rightarrow> False
    | Inr (h, c) \<Rightarrow> c = Inr [cb_success (JArray [JNum 1, JNum 2])]) \<and>
   getJSON example_window
      (setMockRequest [''example.com'' \<mapsto> [''/a'' \<mapsto> JStr ''[1,2]'']] initial_state)
      (example_request ''http://example.com/a'') observe =
     Inr (Mock \<lparr>m_url = ''http://example.com/a'', m_response = JStr ''[1,2]'',
                m_withCredentials = Some False, m_statusText = None,
                m_status = Some 200, m_responseType = None\<rparr>,
          Inr [cb_success (JArray [JNum 1, JNum 2])])"
proof -
  let ?x = "new_XMLHttpRequest\<lparr>x_opened := Some (''GET'', ''http://example.com/a'', True),
              x_requestHeaders := [(''Accept'', ''application/json'')]\<rparr>"
  let ?tr = "\<lambda>body. \<lparr>tr_status = 200, tr_statusText = ''OK'', tr_body = body,
              tr_headers = (\<lambda>name. if name = ''Cache-Control'' then Some ''max-age=60'' else None)\<rparr>"
  have bad: "getJSON (example_window\<lparr>window_transport := (\<lambda>x. answer 200 ''OK'' (JStr ''{bad''))\<rparr>)
          initial_state (example_request ''http://example.com/a'') observe =
       Inr (Real (complete ?x (?tr (JStr ''{bad''))), Inr [cb_error (Caught (SyntaxError ''{bad''))])"
    using getJSON_decodes_or_reports_parse_failure
      [OF example_makeRequest_real, of "\<lambda>x. answer 200 ''OK'' (JStr ''{bad'')" observe,
       THEN conjunct1, rule_format, of ?x "?tr (JStr ''{bad'')"]
    by (simp add: new_XMLHttpRequest_def answer_def example_window_def example_JSON_parse_def
        observe_def)
  have good: "getJSON (example_window\<lparr>window_transport := (\<lambda>x. answer 200 ''OK'' (JStr ''[1,2]''))\<rparr>)
          initial_state (example_request ''http://example.com/a'') observe =
       Inr (Real (complete ?x (?tr (JStr ''[1,2]''))), Inr [cb_success (JArray [JNum 1, JNum 2])])"
    using getJSON_decodes_or_reports_parse_failure
      [OF example_makeRequest_real, of "\<lambda>x. answer 200 ''OK'' (JStr ''[1,2]'')" observe,
       THEN conjunct1, rule_format, of ?x "?tr (JStr ''[1,2]'')"]
    by (simp add: new_XMLHttpRequest_def answer_def example_window_def example_JSON_parse_def
        observe_def)
  have mock: "getJSON example_window
      (setMockRequest [''example.com'' \<mapsto> [''/a'' \<mapsto> JStr ''[1,2]'']] initial_state)
      (example_request ''http://example.com/a'') observe =
     Inr (Mock \<lparr>m_url = ''http://example.com/a'', m_response = JStr ''[1,2]'',
                m_withCredentials = Some False, m_statusText = None,
                m_status = Some 200, m_responseType = None\<rparr>,
          Inr [cb_success (JArray [JNum 1, JNum 2])])"
  proof -
    have m: "makeRequest example_window
        (setMockRequest [''example.com'' \<mapsto> [''/a'' \<mapsto> JStr ''[1,2]'']] initial_state)
        (example_request ''http://example.com/a'') =
       Inr (Mock \<lparr>m_url = ''http://example.com/a'', m_response = JStr ''[1,2]'',
                  m_withCredentials = Some False, m_statusText = None,
                  m_status = None, m_responseType = None\<rparr>)"
      by (simp add: example_makeRequest_mock)
    show ?thesis
      using getJSON_decodes_or_reports_parse_failure
        [OF m, of observe, THEN conjunct2, rule_format, OF refl]
      by (simp add: example_window_def example_JSON_parse_def observe_def)
  qed
  show ?thesis by (simp only: bad good mock sum.case prod.case simp_thms)
qed

subsection \<open>C6: the sources and the cross-origin mode of a video\<close>

text \<open>
  Claim C6: \<^verbatim>\<open>getVideo\<close> attaches one source per URL, in input order; the video's
  cross-origin mode is \<^verbatim>\<open>Anonymous\<close> if and only if some URL is not same-origin; when
  every URL is same-origin it stays unset; and once a prefix of the URLs has set it, the
  URLs that follow do not unset it.
\<close>

theorem getVideo_sources_and_crossOrigin:
  "map source_src (video_children (getVideo w urls)) = urls \<and>
   (video_crossOrigin (getVideo w urls) = Some ''Anonymous'' \<longleftrightarrow>
      (\<exists>u \<in> set urls. \<not> sameOrigin w u)) \<and>
   ((\<forall>u \<in> set urls. sameOrigin w u) \<longrightarrow> video_crossOrigin (getVideo w urls) = None) \<and>
   (video_crossOrigin (getVideo_loop w pre new_video) = Some ''Anonymous'' \<longrightarrow>
      video_crossOrigin (getVideo w (pre @ post)) = Some ''Anonymous'')"
proof -
  have c: "video_crossOrigin (getVideo w us) =
      (if list_ex (\<lambda>u. \<not> sameOrigin w u) us then Some ''Anonymous'' else None)" for us
    by (simp add: getVideo_def getVideo_loop_crossOrigin new_video_def)
  have s: "map source_src (video_children (getVideo w urls)) = urls"
    by (simp add: getVideo_def getVideo_loop_children new_video_def)
  have m: "video_crossOrigin (getVideo_loop w pre new_video) = Some ''Anonymous'' \<longrightarrow>
      video_crossOrigin (getVideo w (pre @ post)) = Some ''Anonymous''"
    using c [of pre] c [of "pre @ post"]
    by (auto simp: getVideo_def list_ex_iff split: if_splits)
  show ?thesis using s m by (auto simp: c list_ex_iff)
qed

theorem getVideo_witness:
  "map source_src (video_children
      (getVideo example_window [''http://other-origin/a.mp4'', ''/local/b.mp4''])) =
     [''http://other-origin/a.mp4'', ''/local/b.mp4''] \<and>
   \<not> sameOrigin example_window ''http://other-origin/a.mp4'' \<and>
   video_crossOrigin (getVideo_loop example_window [''http://other-origin/a.mp4''] new_video) =
     Some ''Anonymous'' \<and>
   video_crossOrigin (getVideo example_window [''http://other-origin/a.mp4'', ''/local/b.mp4'']) =
     Some ''Anonymous'' \<and>
   sameOrigin example_window ''/local/a.mp4'' \<and> sameOrigin example_window ''/local/b.mp4'' \<and>
   video_crossOrigin (getVideo example_window [''/local/a.mp4'', ''/local/b.mp4'']) = None"
proof -
  have a: "\<not> sameOrigin example_window ''http://other-origin/a.mp4''"
    by (simp add: sameOrigin_def example_window_def example_anchor_def example_URL_def)
  have b: "sameOrigin example_window ''/local/b.mp4''"
    by (simp add: sameOrigin_def example_window_def example_anchor_def example_URL_def)
  have c: "sameOrigin example_window ''/local/a.mp4''"
    by (simp add: sameOrigin_def example_window_def example_anchor_def example_URL_def)
  have p: "video_crossOrigin (getVideo_loop example_window [''http://other-origin/a.mp4''] new_video) =
      Some ''Anonymous''"
    using a by (simp add: getVideo_step_def)
  show ?thesis
    using getVideo_sources_and_crossOrigin
        [of example_window "[''http://other-origin/a.mp4'', ''/local/b.mp4'']"
            "[''http://other-origin/a.mp4'']" "[''/local/b.mp4'']"]
      getVideo_sources_and_crossOrigin
        [of example_window "[''/local/a.mp4'', ''/local/b.mp4'']" "[]" "[]"]
      a b c p
    by simp
qed

subsection \<open>C7: getImage on an error, on an empty payload, and the cache metadata\<close>



subsection \<open>C8: the request that makeRequest configures\<close>




subsection \<open>C9: setMockRequest replaces the table\<close>

text \<open>
  Claim C9: after \<^verbatim>\<open>setMockRequest\<close> the mock table is the argument, whatever the
  table was before, and every later request consults it: a request whose URL parses
  resolves to the entry the argument holds for its host name and path name when that
  entry is truthy, and goes to the network otherwise, also when the table before the call
  had an entry there; and \<^verbatim>\<open>getJSON\<close> for a truthy entry of the argument is served
  from it.
\<close>

theorem setMockRequest_replaces_table:
  assumes "window_URL w (url p) = Some u"
  shows "mockRequest (setMockRequest mock s) = mock \<and>
         (\<exists>h. makeRequest w (setMockRequest mock s) p = Inr h \<and>
              resolved_entry h =
                (case mock (hostname u) of
                   None \<Rightarrow> None
                 | Some hostMock \<Rightarrow>
                     (case hostMock (pathname u) of
                        None \<Rightarrow> None
                      | Some v \<Rightarrow> if truthy v then Some v else None))) \<and>
         (\<forall>hostMock v. mock (hostname u) = Some hostMock \<and> hostMock (pathname u) = Some v \<and>
              truthy v \<longrightarrow>
            getJSON w (setMockRequest mock s) p observe =
              Inr (Mock ((new_MockXMLHttpRequest (url p) v)
                          \<lparr>m_withCredentials := Some (credentials p = Some ''include''),
                           m_status := Some 200\<rparr>),
                   Inr [case window_JSON_parse w v of
                          Inl err \<Rightarrow> cb_error (Caught err)
                        | Inr d \<Rightarrow> cb_success d]))"
proof -
  have t: "mockRequest (setMockRequest mock s) = mock"
    by (simp add: setMockRequest_def)
  have l: "mock_lookup mock (hostname u) (pathname u) =
      (case mock (hostname u) of
         None \<Rightarrow> JUndefined
       | Some hostMock \<Rightarrow> (case hostMock (pathname u) of None \<Rightarrow> JUndefined | Some v \<Rightarrow> v))"
    by (simp add: mock_lookup_def)
  have r: "\<exists>h. makeRequest w (setMockRequest mock s) p = Inr h \<and>
              resolved_entry h =
                (case mock (hostname u) of
                   None \<Rightarrow> None
                 | Some hostMock \<Rightarrow>
                     (case hostMock (pathname u) of
                        None \<Rightarrow> None
                      | Some v \<Rightarrow> if truthy v then Some v else None))"
    using assms
    by (simp add: makeRequest_parsed t l new_MockXMLHttpRequest_def split: option.splits)
  have g: "getJSON w (setMockRequest mock s) p observe =
              Inr (Mock ((new_MockXMLHttpRequest (url p) v)
                          \<lparr>m_withCredentials := Some (credentials p = Some ''include''),
                           m_status := Some 200\<rparr>),
                   Inr [case window_JSON_parse w v of
                          Inl err \<Rightarrow> cb_error (Caught err)
                        | Inr d \<Rightarrow> cb_success d])"
    if "mock (hostname u) = Some hostMock" and "hostMock (pathname u) = Some v" and "truthy v"
    for hostMock v
    using assms that
    by (simp add: getJSON_def makeRequest_parsed t l xhr_send_Mock getJSON_onload_def
        MockXMLHttpRequest_send_status_def new_MockXMLHttpRequest_def status_2xx_def
        observe_def split: sum.splits)
  show ?thesis using t r g by blast
qed

theorem setMockRequest_witness:
  "mockRequest (setMockRequest [''example.com'' \<mapsto> [''/b'' \<mapsto> JStr ''[1,2]'']]
      (setMockRequest [''example.com'' \<mapsto> [''/a'' \<mapsto> JStr ''1'']] initial_state)) =
     [''example.com'' \<mapsto> [''/b'' \<mapsto> JStr ''[1,2]'']] \<and>
   (\<exists>h. makeRequest example_window
          (setMockRequest [''example.com'' \<mapsto> [''/b'' \<mapsto> JStr ''[1,2]'']]
            (setMockRequest [''example.com'' \<mapsto> [''/a'' \<mapsto> JStr ''1'']] initial_state))
          (example_request ''http://example.com/a'') = Inr h \<and>
        resolved_entry h = None) \<and>
   (\<exists>h. makeRequest example_window
          (setMockRequest [''example.com'' \<mapsto> [''/b'' \<mapsto> JStr ''[1,2]'']]
            (setMockRequest [''example.com'' \<mapsto> [''/a'' \<mapsto> JStr ''1'']] initial_state))
          (example_request ''http://example.com/b'') = Inr h \<and>
        resolved_entry h = Some (JStr ''[1,2]'')) \<and>
   getJSON example_window
      (setMockRequest [''example.com'' \<mapsto> [''/b'' \<mapsto> JStr ''[1,2]'']]
        (setMockRequest [''example.com'' \<mapsto> [''/a'' \<mapsto> JStr ''1'']] initial_state))
      (example_request ''http://example.com/b'') observe =
     Inr (Mock \<lparr>m_url = ''http://example.com/b'', m_response = JStr ''[1,2]'',
                m_withCredentials = Some False, m_statusText = None,
                m_status = Some 200, m_responseType = None\<rparr>,
          Inr [cb_success (JArray [JNum 1, JNum 2])])"
proof -
  let ?old = "setMockRequest [''example.com'' \<mapsto> [''/a'' \<mapsto> JStr ''1'']] initial_state"
  let ?new = "[''example.com'' \<mapsto> [''/b'' \<mapsto> JStr ''[1,2]'']]"
  let ?ua = "\<lparr>protocol = ''http:'', hostname = ''example.com'', port = [],
              pathname = ''/a'', search = [], hash = []\<rparr>"
  let ?ub = "\<lparr>protocol = ''http:'', hostname = ''example.com'', port = [],
              pathname = ''/b'', search = [], hash = []\<rparr>"
  have ua: "window_URL example_window (url (example_request ''http://example.com/a'')) = Some ?ua"
    by (simp add: example_window_def example_URL_def example_request_def)
  have ub: "window_URL example_window (url (example_request ''http://example.com/b'')) = Some ?ub"
    by (simp add: example_window_def example_URL_def example_request_def)
  note a = setMockRequest_replaces_table [OF ua, of ?new ?old]
  note b = setMockRequest_replaces_table [OF ub, of ?new ?old]
  have 1: "mockRequest (setMockRequest ?new ?old) = ?new"
    using a by blast
  have 2: "\<exists>h. makeRequest example_window (setMockRequest ?new ?old)
          (example_request ''http://example.com/a'') = Inr h \<and> resolved_entry h = None"
    using a [THEN conjunct2, THEN conjunct1] by simp
  have 3: "\<exists>h. makeRequest example_window (setMockRequest ?new ?old)
          (example_request ''http://example.com/b'') = Inr h \<and>
          resolved_entry h = Some (JStr ''[1,2]'')"
    using b [THEN conjunct2, THEN conjunct1] by simp
  have 4: "getJSON example_window (setMockRequest ?new ?old)
      (example_request ''http://example.com/b'') observe =
     Inr (Mock \<lparr>m_url = ''http://example.com/b'', m_response = JStr ''[1,2]'',
                m_withCredentials = Some False, m_statusText = None,
                m_status = Some 200, m_responseType = None\<rparr>,
          Inr [cb_success (JArray [JNum 1, JNum 2])])"
    using b [THEN conjunct2, THEN conjunct2, rule_format,
        of "[''/b'' \<mapsto> JStr ''[1,2]'']" "JStr ''[1,2]''"]
    by (simp add: new_MockXMLHttpRequest_def example_request_def example_window_def
        example_JSON_parse_def)
  show ?thesis using 1 2 3 4 by (intro conjI)
qed

subsection \<open>C10: the lookup keys on host name and path name\<close>

text \<open>
  Claim C10: two request URLs with the same host name and path name resolve to the same
  mock entry, or both go to the network, whatever their protocol, port, query and
  fragment.
\<close>

theorem makeRequest_keys_on_hostname_and_pathname:
  assumes "window_URL w (url p1) = Some u1" and "window_URL w (url p2) = Some u2"
    and "hostname u1 = hostname u2" and "pathname u1 = pathname u2"
  shows "\<exists>h1 h2. makeRequest w s p1 = Inr h1 \<and> makeRequest w s p2 = Inr h2 \<and>
           resolved_entry h1 = resolved_entry h2 \<and>
           resolved_entry h1 =
             (if truthy (mock_lookup (mockRequest s) (hostname u1) (pathname u1))
              then Some (mock_lookup (mockRequest s) (hostname u1) (pathname u1))
              else None)"
  using assms by (simp add: makeRequest_parsed new_MockXMLHttpRequest_def)

theorem makeRequest_lookup_witness:
  "\<exists>h1 h2.
     makeRequest example_window
        (setMockRequest [''example.com'' \<mapsto> [''/a'' \<mapsto> JStr ''1'']] initial_state)
        (example_request ''http://example.com/a'') = Inr h1 \<and>
     makeRequest example_window
        (setMockRequest [''example.com'' \<mapsto> [''/a'' \<mapsto> JStr ''1'']] initial_state)
        (example_request ''https://example.com:8443/a?x=1#top'') = Inr h2 \<and>
     resolved_entry h1 = Some (JStr ''1'') \<and> resolved_entry h2 = Some (JStr ''1'')"
proof -
  let ?s = "setMockRequest [''example.com'' \<mapsto> [''/a'' \<mapsto> JStr ''1'']] initial_state"
  let ?u1 = "\<lparr>protocol = ''http:'', hostname = ''example.com'', port = [],
              pathname = ''/a'', search = [], hash = []\<rparr>"
  let ?u2 = "\<lparr>protocol = ''https:'', hostname = ''example.com'', port = ''8443'',
              pathname = ''/a'', search = ''?x=1'', hash = ''#top''\<rparr>"
  have u1: "window_URL example_window (url (example_request ''http://example.com/a'')) = Some ?u1"
    by (simp add: example_window_def example_URL_def example_request_def)
  have u2: "window_URL example_window (url (example_request ''https://example.com:8443/a?x=1#top'')) =
      Some ?u2"
    by (simp add: example_window_def example_URL_def example_request_def)
  have e: "mock_lookup (mockRequest ?s) (hostname ?u1) (pathname ?u1) = JStr ''1''"
    by (simp add: mock_lookup_def setMockRequest_def)
  obtain h1 h2 where
    "makeRequest example_window ?s (example_request ''http://example.com/a'') = Inr h1"
    "makeRequest example_window ?s (example_request ''https://example.com:8443/a?x=1#top'') = Inr h2"
    "resolved_entry h1 = resolved_entry h2"
    "resolved_entry h1 = Some (JStr ''1'')"
    using makeRequest_keys_on_hostname_and_pathname [OF u1 u2, of ?s] unfolding e
    by auto
  then show ?thesis by auto
qed

section \<open>Further properties of the code\<close>

text \<open>
  Every mock handle that \<^verbatim>\<open>makeRequest\<close> builds holds a truthy body, so
  \<^verbatim>\<open>MockXMLHttpRequest.send\<close> sets status 200 on it and leaves the status text
  unset: the branch of \<^verbatim>\<open>send\<close> that sets 404 is never taken.
\<close>

theorem mock_handle_always_reports_200:
  assumes "makeRequest w s p = Inr (Mock m)"
  shows "truthy (m_response m) \<and>
         m_status (MockXMLHttpRequest_send_status m) = Some 200 \<and>
         m_statusText (MockXMLHttpRequest_send_status m) = None"
proof (cases "window_URL w (url p)")
  case None
  with assms show ?thesis by (simp add: makeRequest_unparsed)
next
  case (Some u)
  with assms show ?thesis
    by (auto simp: makeRequest_parsed new_MockXMLHttpRequest_def
        MockXMLHttpRequest_send_status_def split: if_splits)
qed

theorem mock_handle_always_reports_200_witness:
  "m_status (MockXMLHttpRequest_send_status
      \<lparr>m_url = ''http://example.com/a'', m_response = JStr ''1'',
       m_withCredentials = Some False, m_statusText = None,
       m_status = None, m_responseType = None\<rparr>) = Some 200"
  using mock_handle_always_reports_200
    [of example_window "setMockRequest [''example.com'' \<mapsto> [''/a'' \<mapsto> JStr ''1'']] initial_state"
        "example_request ''http://example.com/a''"
        "\<lparr>m_url = ''http://example.com/a'', m_response = JStr ''1'',
          m_withCredentials = Some False, m_statusText = None,
          m_status = None, m_responseType = None\<rparr>"]
  by (simp add: example_makeRequest_mock)

text \<open>
  When the URL parses and the table has no truthy entry for its host name and path name
  (no entry, or one that is \<^verbatim>\<open>undefined\<close>, \<^verbatim>\<open>null\<close>, empty, zero or
  \<^verbatim>\<open>false\<close>), \<^verbatim>\<open>makeRequest\<close> returns the host's \<^verbatim>\<open>XMLHttpRequest\<close>, opened
  and configured.
\<close>

theorem falsy_entry_goes_to_network:
  assumes "window_URL w (url p) = Some u"
    and "\<not> truthy (mock_lookup (mockRequest s) (hostname u) (pathname u))"
  shows "makeRequest w s p =
     Inr (Real (new_XMLHttpRequest
        \<lparr>x_opened := Some (''GET'', url p, True),
         x_requestHeaders := (case headers p of None \<Rightarrow> [] | Some kvs \<Rightarrow> kvs),
         x_withCredentials := (credentials p = Some ''include'')\<rparr>))"
  using assms by (simp add: makeRequest_parsed)

theorem falsy_entry_goes_to_network_witness:
  "makeRequest example_window
      (setMockRequest [''example.com'' \<mapsto> [''/a'' \<mapsto> JNull]] initial_state)
      (example_request ''http://example.com/a'') =
     Inr (Real (new_XMLHttpRequest
        \<lparr>x_opened := Some (''GET'', ''http://example.com/a'', True),
         x_requestHeaders := [], x_withCredentials := False\<rparr>))"
  using falsy_entry_goes_to_network
    [of example_window "example_request ''http://example.com/a''"
        "\<lparr>protocol = ''http:'', hostname = ''example.com'', port = [],
          pathname = ''/a'', search = [], hash = []\<rparr>"
        "setMockRequest [''example.com'' \<mapsto> [''/a'' \<mapsto> JNull]] initial_state"]
  by (simp add: example_window_def example_URL_def example_request_def setMockRequest_def
      mock_lookup_def)

text \<open>
  \<^verbatim>\<open>getArrayBuffer\<close> against a mock entry never delivers a success: a body of byte
  length zero gives the error for a status 200 without content, any other body ends in
  the \<^verbatim>\<open>TypeError\<close> of the missing \<^verbatim>\<open>getResponseHeader\<close>, thrown out of
  \<^verbatim>\<open>getArrayBuffer\<close> itself.
\<close>

theorem getArrayBuffer_on_mock_never_succeeds:
  assumes "makeRequest w s p = Inr (Mock m)"
  shows "getArrayBuffer w s p callback =
     (if get_byteLength (m_response m) = Inr (JNum 0)
      then (case callback (cb_error (Error (Some ''http status 200 returned without content.''))) of
              Inl e \<Rightarrow> Inl e
            | Inr calls \<Rightarrow>
                Inr (Mock (m\<lparr>m_responseType := Some ''arraybuffer'', m_status := Some 200\<rparr>),
                     Inr calls))
      else Inl (TypeError_NotAFunction ''getResponseHeader''))"
proof -
  have t: "truthy (m_response m)"
    using assms by (rule makeRequest_Mock_truthy)
  then obtain n where n: "get_byteLength (m_response m) = Inr n"
    by (cases "m_response m") simp_all
  show ?thesis
    using assms t n
    by (simp add: getArrayBuffer_def xhr_send_Mock MockXMLHttpRequest_send_status_def
        getArrayBuffer_onload_def status_2xx_def Let_def split: sum.splits)
qed

theorem getArrayBuffer_on_mock_witness:
  "getArrayBuffer example_window
      (setMockRequest [''example.com'' \<mapsto> [''/a'' \<mapsto> JStr ''[1,2]'']] initial_state)
      (example_request ''http://example.com/a'') observe =
     Inl (TypeError_NotAFunction ''getResponseHeader'') \<and>
   getArrayBuffer example_window
      (setMockRequest [''example.com'' \<mapsto> [''/a'' \<mapsto> JArrayBuffer []]] initial_state)
      (example_request ''http://example.com/a'') observe =
     Inr (Mock \<lparr>m_url = ''http://example.com/a'', m_response = JArrayBuffer [],
                m_withCredentials = Some False, m_statusText = None,
                m_status = Some 200, m_responseType = Some ''arraybuffer''\<rparr>,
          Inr [cb_error (Error (Some ''http status 200 returned without content.''))])"
  using getArrayBuffer_on_mock_never_succeeds
    [of example_window "setMockRequest [''example.com'' \<mapsto> [''/a'' \<mapsto> JStr ''[1,2]'']] initial_state"
        "example_request ''http://example.com/a''"
        "\<lparr>m_url = ''http://example.com/a'', m_response = JStr ''[1,2]'',
          m_withCredentials = Some False, m_statusText = None,
          m_status = None, m_responseType = None\<rparr>" observe]
    getArrayBuffer_on_mock_never_succeeds
    [of example_window "setMockRequest [''example.com'' \<mapsto> [''/a'' \<mapsto> JArrayBuffer []]] initial_state"
        "example_request ''http://example.com/a''"
        "\<lparr>m_url = ''http://example.com/a'', m_response = JArrayBuffer [],
          m_withCredentials = Some False, m_statusText = None,
          m_status = None, m_responseType = None\<rparr>" observe]
  by (simp add: example_makeRequest_mock observe_def)

text \<open>
  A URL that \<^verbatim>\<open>new window.URL\<close> rejects makes \<^verbatim>\<open>getJSON\<close>,
  \<^verbatim>\<open>getArrayBuffer\<close> and \<^verbatim>\<open>getImage\<close> throw the constructor's \<^verbatim>\<open>TypeError\<close>
  from the call itself; no callback is called.
\<close>

theorem unparsable_url_throws_synchronously:
  assumes "window_URL w (url p) = None"
  shows "getJSON w s p callback = Inl (TypeError_InvalidURL (url p)) \<and>
         getArrayBuffer w s p callback' = Inl (TypeError_InvalidURL (url p)) \<and>
         getImage w s p callback'' = Inl (TypeError_InvalidURL (url p))"
  using assms
  by (simp add: getJSON_def getArrayBuffer_def getImage_def makeRequest_unparsed)

theorem unparsable_url_witness:
  "getJSON example_window initial_state (example_request ''/local/style.json'') observe =
     Inl (TypeError_InvalidURL ''/local/style.json'') \<and>
   getArrayBuffer example_window initial_state (example_request ''/local/style.json'') observe =
     Inl (TypeError_InvalidURL ''/local/style.json'') \<and>
   getImage example_window initial_state (example_request ''/local/style.json'') observe =
     Inl (TypeError_InvalidURL ''/local/style.json'')"
  using unparsable_url_throws_synchronously
    [of example_window "example_request ''/local/style.json''" initial_state observe observe observe]
  by (simp add: example_window_def example_URL_def example_request_def)

text \<open>
  An exchange on the host's \<^verbatim>\<open>XMLHttpRequest\<close> that completes with a status
  outside 200 to 299 gives the callback exactly one \<^verbatim>\<open>AJAXError\<close> with the status
  text, the status and the URL of the request parameters, unchanged; for
  \<^verbatim>\<open>getArrayBuffer\<close> provided the response is neither \<^verbatim>\<open>null\<close> nor
  \<^verbatim>\<open>undefined\<close>.
\<close>

theorem non_2xx_status_yields_one_AJAXError:
  assumes "makeRequest w s p = Inr h0"
    and "window_transport w x = Load tr"
    and "\<not> (200 \<le> tr_status tr \<and> tr_status tr < 300)"
  shows "(xhr_setRequestHeader ''Accept'' ''application/json'' h0 = Real x \<longrightarrow>
            getJSON w s p callback =
              Inr (Real (complete x tr),
                   callback (cb_error
                     (AJAXError (Some (tr_statusText tr)) (Some (tr_status tr)) (url p))))) \<and>
         (xhr_set_responseType ''arraybuffer'' h0 = Real x \<and>
          tr_body tr \<noteq> JNull \<and> tr_body tr \<noteq> JUndefined \<longrightarrow>
            getArrayBuffer w s p callback' =
              Inr (Real (complete x tr),
                   callback' (cb_error
                     (AJAXError (Some (tr_statusText tr)) (Some (tr_status tr)) (url p)))))"
proof -
  have j: "getJSON_onload w p callback (Real (complete x tr)) =
      callback (cb_error (AJAXError (Some (tr_statusText tr)) (Some (tr_status tr)) (url p)))"
    using assms(3) by (auto simp: getJSON_onload_def status_2xx_complete complete_fields)
  have b: "getArrayBuffer_onload p callback' (Real (complete x tr)) =
      callback' (cb_error (AJAXError (Some (tr_statusText tr)) (Some (tr_status tr)) (url p)))"
    if "tr_body tr \<noteq> JNull" and "tr_body tr \<noteq> JUndefined"
  proof -
    from that obtain n where "get_byteLength (tr_body tr) = Inr n"
      by (cases "tr_body tr") simp_all
    with assms(3) show ?thesis
      by (auto simp: getArrayBuffer_onload_def status_2xx_complete complete_fields)
  qed
  show ?thesis
    using assms(1,2) j b by (simp add: getJSON_def getArrayBuffer_def xhr_send_Real)
qed

theorem non_2xx_status_witness:
  "(case getJSON (example_window\<lparr>window_transport := (\<lambda>x. answer 404 ''Not Found'' (JStr ''gone''))\<rparr>)
          initial_state (example_request ''http://example.com/a'') observe of
      Inl e \<Rightarrow> False
    | Inr (h, c) \<Rightarrow>
        c = Inr [cb_error (AJAXError (Some ''Not Found'') (Some 404) ''http://example.com/a'')])"
proof -
  let ?x = "new_XMLHttpRequest\<lparr>x_opened := Some (''GET'', ''http://example.com/a'', True),
              x_requestHeaders := [(''Accept'', ''application/json'')]\<rparr>"
  let ?tr = "\<lparr>tr_status = 404, tr_statusText = ''Not Found'', tr_body = JStr ''gone'',
              tr_headers = (\<lambda>name. if name = ''Cache-Control'' then Some ''max-age=60'' else None)\<rparr>"
  have "getJSON (example_window\<lparr>window_transport := (\<lambda>x. answer 404 ''Not Found'' (JStr ''gone''))\<rparr>)
          initial_state (example_request ''http://example.com/a'') observe =
       Inr (Real (complete ?x ?tr),
            Inr [cb_error (AJAXError (Some ''Not Found'') (Some 404) ''http://example.com/a'')])"
    using non_2xx_status_yields_one_AJAXError
      [OF example_makeRequest_real, of "\<lambda>x. answer 404 ''Not Found'' (JStr ''gone'')" ?x ?tr
         observe observe, THEN conjunct1]
    by (simp add: new_XMLHttpRequest_def answer_def example_window_def example_request_def
        observe_def)
  then show ?thesis by simp
qed

text \<open>
  On the host's \<^verbatim>\<open>XMLHttpRequest\<close>, an exchange that completes with status 200 and
  a body of byte length zero gives the callback of \<^verbatim>\<open>getArrayBuffer\<close> exactly one
  error, the one for a status 200 without content; a 2xx exchange with a truthy body
  of any other length gives it exactly one success, which carries the body and the
  \<^verbatim>\<open>Cache-Control\<close> and \<^verbatim>\<open>Expires\<close> response headers, each possibly absent.
\<close>

theorem getArrayBuffer_empty_body_and_success:
  assumes "makeRequest w s p = Inr h0"
    and "xhr_set_responseType ''arraybuffer'' h0 = Real x"
    and "window_transport w x = Load tr"
  shows "(tr_status tr = 200 \<and> get_byteLength (tr_body tr) = Inr (JNum 0) \<longrightarrow>
            getArrayBuffer w s p callback =
              Inr (Real (complete x tr),
                   callback (cb_error (Error (Some ''http status 200 returned without content.''))))) \<and>
         (200 \<le> tr_status tr \<and> tr_status tr < 300 \<and> truthy (tr_body tr) \<and>
          get_byteLength (tr_body tr) \<noteq> Inr (JNum 0) \<longrightarrow>
            getArrayBuffer w s p callback =
              Inr (Real (complete x tr),
                   callback (cb_success
                     \<lparr>data = tr_body tr, cacheControl = tr_headers tr ''Cache-Control'',
                      expires = tr_headers tr ''Expires''\<rparr>)))"
proof -
  have op: "getArrayBuffer w s p callback =
      Inr (Real (complete x tr), getArrayBuffer_onload p callback (Real (complete x tr)))"
    using assms by (simp add: getArrayBuffer_def xhr_send_Real)
  have e: "getArrayBuffer_onload p callback (Real (complete x tr)) =
      callback (cb_error (Error (Some ''http status 200 returned without content.'')))"
    if "tr_status tr = 200" and "get_byteLength (tr_body tr) = Inr (JNum 0)"
    using that by (simp add: getArrayBuffer_onload_def complete_def)
  have g: "getArrayBuffer_onload p callback (Real (complete x tr)) =
      callback (cb_success
        \<lparr>data = tr_body tr, cacheControl = tr_headers tr ''Cache-Control'',
         expires = tr_headers tr ''Expires''\<rparr>)"
    if "200 \<le> tr_status tr" and "tr_status tr < 300" and "truthy (tr_body tr)"
      and "get_byteLength (tr_body tr) \<noteq> Inr (JNum 0)"
  proof (cases "get_byteLength (tr_body tr)")
    case (Inl ex)
    with that(3) show ?thesis by (cases "tr_body tr") simp_all
  next
    case (Inr n)
    with that show ?thesis
      by (simp add: getArrayBuffer_onload_def complete_def status_2xx_def)
  qed
  show ?thesis using op e g by simp
qed

theorem getArrayBuffer_witness:
  "(case getArrayBuffer (example_window\<lparr>window_transport := (\<lambda>x. answer 200 ''OK'' (JArrayBuffer []))\<rparr>)
          initial_state (example_request ''http://example.com/a'') observe of
      Inl e \<Rightarrow> False
    | Inr (h, c) \<Rightarrow> c = Inr [cb_error (Error (Some ''http status 200 returned without content.''))]) \<and>
   (case getArrayBuffer (example_window\<lparr>window_transport := (\<lambda>x. answer 200 ''OK'' (JArrayBuffer [1, 2, 3]))\<rparr>)
          initial_state (example_request ''http://example.com/a'') observe of
      Inl e \<Rightarrow> False
    | Inr (h, c) \<Rightarrow> c = Inr [cb_success \<lparr>data = JArrayBuffer [1, 2, 3],
                                cacheControl = Some ''max-age=60'', expires = None\<rparr>])"
proof -
  let ?x = "new_XMLHttpRequest\<lparr>x_opened := Some (''GET'', ''http://example.com/a'', True),
              x_responseType := ''arraybuffer''\<rparr>"
  let ?tr = "\<lambda>body. \<lparr>tr_status = 200, tr_statusText = ''OK'', tr_body = body,
              tr_headers = (\<lambda>name. if name = ''Cache-Control'' then Some ''max-age=60'' else None)\<rparr>"
  have empty: "getArrayBuffer (example_window\<lparr>window_transport := (\<lambda>x. answer 200 ''OK'' (JArrayBuffer []))\<rparr>)
          initial_state (example_request ''http://example.com/a'') observe =
       Inr (Real (complete ?x (?tr (JArrayBuffer []))),
            Inr [cb_error (Error (Some ''http status 200 returned without content.''))])"
    using getArrayBuffer_empty_body_and_success
      [OF example_makeRequest_real, of ?x "\<lambda>x. answer 200 ''OK'' (JArrayBuffer [])"
         "?tr (JArrayBuffer [])" observe, THEN conjunct1]
    by (simp add: new_XMLHttpRequest_def answer_def example_window_def observe_def)
  have full: "getArrayBuffer (example_window\<lparr>window_transport := (\<lambda>x. answer 200 ''OK'' (JArrayBuffer [1, 2, 3]))\<rparr>)
          initial_state (example_request ''http://example.com/a'') observe =
       Inr (Real (complete ?x (?tr (JArrayBuffer [1, 2, 3]))),
            Inr [cb_success \<lparr>data = JArrayBuffer [1, 2, 3],
                              cacheControl = Some ''max-age=60'', expires = None\<rparr>])"
    using getArrayBuffer_empty_body_and_success
      [OF example_makeRequest_real, of ?x "\<lambda>x. answer 200 ''OK'' (JArrayBuffer [1, 2, 3])"
         "?tr (JArrayBuffer [1, 2, 3])" observe, THEN conjunct2]
    by (simp add: new_XMLHttpRequest_def answer_def example_window_def observe_def)
  show ?thesis by (simp only: empty full sum.case prod.case simp_thms)
qed

end
